theory Spec2Isabelle
  imports Main
begin

section \<open>The query compatibility executor of \<^verbatim>\<open>src/db/connection.js\<close>\<close>

text \<open>
  The module wraps a PostgreSQL connection pool so that call sites written for the
  \<^verbatim>\<open>mysql2\<close> client keep working: \<^verbatim>\<open>convertQuestionMarksToDollars\<close> rewrites the
  \<^verbatim>\<open>?\<close> placeholders of a statement into \<^verbatim>\<open>$1\<close>, \<^verbatim>\<open>$2\<close>, ..., and
  \<^verbatim>\<open>execute\<close> submits the translated statement to the pool and reshapes the driver's
  result into the tuple the callers destructure.
\<close>

subsection \<open>JavaScript values that the module inspects\<close>

text \<open>
  A JavaScript slot that may hold \<^verbatim>\<open>undefined\<close>, \<^verbatim>\<open>null\<close> or a value of the expected
  type. The source tells the three apart: a default parameter replaces \<^verbatim>\<open>undefined\<close>
  only, \<^verbatim>\<open>!v\<close> and \<^verbatim>\<open>v || d\<close> treat \<^verbatim>\<open>undefined\<close> and \<^verbatim>\<open>null\<close> alike (and the empty
  string with them), \<^verbatim>\<open>v ?? d\<close> replaces exactly \<^verbatim>\<open>undefined\<close> and \<^verbatim>\<open>null\<close>, and
  \<^verbatim>\<open>Array.isArray\<close> holds of an array only.
\<close>

datatype 'a nullable = Undefined | Null | Defined 'a

text \<open>
  A statement text is a \<^typ>\<open>string\<close>. The marker \<^verbatim>\<open>?\<close> is an ASCII character, so it
  is one element of the text whether the elements are read as UTF-16 code units (as
  JavaScript has them) or as UTF-8 bytes.
\<close>

text \<open>The object \<^verbatim>\<open>{ text, values }\<close> returned by the translation.\<close>

record 'v translated =
  "text" :: string
  "values" :: "'v list"

subsection \<open>Placeholder translation\<close>

text \<open>
  The decimal numeral of a counter, as the template literal \<^verbatim>\<open>`$${++index}`\<close> renders
  it. The counter is at most the length of the statement text, far below \<open>2^53\<close>, where
  a JavaScript number is an exact integer and prints in plain decimal notation.
\<close>

definition digitChar :: "nat \<Rightarrow> char" where
  "digitChar d = char_of (48 + d)"

fun numberToString :: "nat \<Rightarrow> string" where
  "numberToString n =
     (if n < 10 then [digitChar n]
      else numberToString (n div 10) @ [digitChar (n mod 10)])"

declare numberToString.simps [simp del]

text \<open>
  \<^verbatim>\<open>sql.replace(/\?/g, () => `$${++index}`)\<close>: a left-to-right scan in which every
  \<^verbatim>\<open>?\<close> increments the counter and is replaced by \<^verbatim>\<open>$\<close> followed by the new count;
  every other character is copied. The first argument is the value of \<^verbatim>\<open>index\<close>
  before the scan reaches the rest of the text. The replacement comes from a function,
  so JavaScript inserts it literally.
\<close>

fun replaceQuestionMarks :: "nat \<Rightarrow> string \<Rightarrow> string" where
  "replaceQuestionMarks index [] = []"
| "replaceQuestionMarks index (c # cs) =
     (if c = CHR ''?''
      then CHR ''$'' # numberToString (Suc index) @ replaceQuestionMarks (Suc index) cs
      else c # replaceQuestionMarks index cs)"

text \<open>
  \<^verbatim>\<open>convertQuestionMarksToDollars(sql, values)\<close>. The guard
  \<^verbatim>\<open>!values || values.length === 0\<close> returns the text as it is, with a fresh empty
  list, when the parameters are \<^verbatim>\<open>undefined\<close>, \<^verbatim>\<open>null\<close> or an empty array.
\<close>

fun convertQuestionMarksToDollars :: "string \<Rightarrow> 'v list nullable \<Rightarrow> 'v translated" where
  "convertQuestionMarksToDollars sql Undefined = \<lparr>text = sql, values = []\<rparr>"
| "convertQuestionMarksToDollars sql Null = \<lparr>text = sql, values = []\<rparr>"
| "convertQuestionMarksToDollars sql (Defined vs) =
     (if length vs = 0 then \<lparr>text = sql, values = []\<rparr>
      else \<lparr>text = replaceQuestionMarks 0 sql, values = vs\<rparr>)"

subsection \<open>Executing a statement and reshaping the driver's result\<close>

text \<open>
  The result object of the driver, with the three fields \<^verbatim>\<open>execute\<close> reads:
  \<^verbatim>\<open>command\<close> (the command tag, a string when present), \<^verbatim>\<open>rows\<close> (an array of rows
  when present) and \<^verbatim>\<open>rowCount\<close> (an integer when present). Each may be missing or
  \<^verbatim>\<open>null\<close>. Rows are opaque to the module, hence the type parameter.
\<close>

record 'row query_result =
  command :: "string nullable"
  rows :: "'row list nullable"
  rowCount :: "int nullable"

text \<open>The object \<^verbatim>\<open>{ affectedRows, insertId }\<close> that mimics the OkPacket of mysql2.\<close>

record ok_packet =
  affectedRows :: int
  insertId :: "int nullable"

text \<open>
  An element of the array \<^verbatim>\<open>execute\<close> resolves with: either a plain value (the
  \<^verbatim>\<open>rows\<close> field of the result as it is, or \<^verbatim>\<open>undefined\<close>) or a status object.
\<close>

datatype 'row slot = Value "'row list nullable" | Status ok_packet

text \<open>
  \<^verbatim>\<open>String.prototype.toUpperCase\<close> on the ASCII range: \<^verbatim>\<open>a\<close>..\<^verbatim>\<open>z\<close> (codes 97 to 122)
  move down by 32 and every other character stays. Command tags of the driver are ASCII
  words; the Unicode case mappings of JavaScript outside ASCII are not modelled.
\<close>

definition toUpperCaseChar :: "char \<Rightarrow> char" where
  "toUpperCaseChar c =
     (let n = (of_char c :: nat) in if 97 \<le> n \<and> n \<le> 122 then char_of (n - 32) else c)"

definition toUpperCase :: "string \<Rightarrow> string" where
  "toUpperCase s = map toUpperCaseChar s"

text \<open>\<^verbatim>\<open>v || ""\<close> on a string slot: \<^verbatim>\<open>undefined\<close>, \<^verbatim>\<open>null\<close> and \<^verbatim>\<open>""\<close> are falsy.\<close>

fun orEmptyString :: "string nullable \<Rightarrow> string" where
  "orEmptyString Undefined = ''''"
| "orEmptyString Null = ''''"
| "orEmptyString (Defined s) = (if s = '''' then '''' else s)"

text \<open>\<^verbatim>\<open>v ?? d\<close>: the default replaces \<^verbatim>\<open>undefined\<close> and \<^verbatim>\<open>null\<close> only.\<close>

fun nullish :: "'a nullable \<Rightarrow> 'a \<Rightarrow> 'a" where
  "nullish Undefined d = d"
| "nullish Null d = d"
| "nullish (Defined v) d = v"

text \<open>\<^verbatim>\<open>Array.isArray(v)\<close> on a slot whose defined values are arrays.\<close>

fun isArray :: "'a list nullable \<Rightarrow> bool" where
  "isArray (Defined xs) = True"
| "isArray Undefined = False"
| "isArray Null = False"

text \<open>
  \<^verbatim>\<open>pool.query(text, values)\<close> is the one effect of \<^verbatim>\<open>execute\<close>. The pool is a
  parameter of the model: from its state, the text and the values it yields an outcome
  (\<open>Inl\<close> the error the promise rejects with, \<open>Inr\<close> the result object it resolves
  with) and its next state.
\<close>

type_synonym ('db, 'v, 'e, 'row) pool =
  "'db \<Rightarrow> string \<Rightarrow> 'v list \<Rightarrow> ('e + 'row query_result) \<times> 'db"

text \<open>
  \<^verbatim>\<open>execute(sql, params = [])\<close>. The default replaces an \<^verbatim>\<open>undefined\<close> argument only.
  A rejection of the awaited promise leaves the function at once, since there is no
  \<^verbatim>\<open>try\<close> around it; otherwise the result is reshaped: \<^verbatim>\<open>[result.rows, undefined]\<close>
  when the upper-cased tag is \<^verbatim>\<open>SELECT\<close> or \<^verbatim>\<open>rows\<close> is an array, and the
  one-element array with the status object otherwise.
\<close>

definition execute ::
  "('db, 'v, 'e, 'row) pool \<Rightarrow> 'db \<Rightarrow> string \<Rightarrow> 'v list nullable
     \<Rightarrow> ('e + 'row slot list) \<times> 'db" where
  "execute query db sql params =
     (let params = (case params of Undefined \<Rightarrow> Defined [] | _ \<Rightarrow> params);
          translated = convertQuestionMarksToDollars sql params;
          (outcome, db') = query db (text translated) (values translated)
      in case outcome of
           Inl err \<Rightarrow> (Inl err, db')
         | Inr result \<Rightarrow>
             (let command = toUpperCase (orEmptyString (command result))
              in if command = ''SELECT'' \<or> isArray (rows result)
                 then (Inr [Value (rows result), Value Undefined], db')
                 else (Inr [Status \<lparr>affectedRows = nullish (rowCount result) 0,
                                    insertId = Null\<rparr>], db')))"

subsection \<open>Notions of the specification\<close>

text \<open>
  A statement text read as segments separated by markers: \<open>n + 1\<close> segments, none
  holding a \<^verbatim>\<open>?\<close>, joined by \<open>n\<close> markers.
\<close>

fun spec_join_markers :: "string list \<Rightarrow> string" where
  "spec_join_markers [] = []"
| "spec_join_markers [s] = s"
| "spec_join_markers (s # t # ss) = s @ ''?'' @ spec_join_markers (t # ss)"

text \<open>
  Every text is such a join: the segments of a text, cut at its markers.
\<close>

fun spec_split_markers :: "string \<Rightarrow> string list" where
  "spec_split_markers [] = [[]]"
| "spec_split_markers (c # cs) =
     (if c = CHR ''?'' then [] # spec_split_markers cs
      else (c # hd (spec_split_markers cs)) # tl (spec_split_markers cs))"

text \<open>
  The same segments joined by the tokens \<^verbatim>\<open>$k\<close>, \<^verbatim>\<open>$(k+1)\<close>, ... from left to right.
\<close>

fun spec_join_tokens :: "nat \<Rightarrow> string list \<Rightarrow> string" where
  "spec_join_tokens k [] = []"
| "spec_join_tokens k [s] = s"
| "spec_join_tokens k (s # t # ss) =
     s @ ''$'' @ numberToString k @ spec_join_tokens (Suc k) (t # ss)"

text \<open>
  The value a string of decimal digits denotes, to read a token \<^verbatim>\<open>$k\<close> back.
\<close>

definition spec_decimal_value :: "string \<Rightarrow> nat" where
  "spec_decimal_value s = foldl (\<lambda>a c. 10 * a + (of_char c - 48)) 0 s"

text \<open>
  A tag equals \<^verbatim>\<open>SELECT\<close> case-insensitively: it has six letters, each the capital
  or the small form of the letter at its place.
\<close>

definition spec_equals_SELECT_ignoring_case :: "string \<Rightarrow> bool" where
  "spec_equals_SELECT_ignoring_case tag =
     list_all2 (\<lambda>c (u, l). c = u \<or> c = l) tag (zip ''SELECT'' ''select'')"

text \<open>
  The classification of the specification: a result is a read when the driver reports
  a tag equal to \<^verbatim>\<open>SELECT\<close> case-insensitively or the result carries a row sequence.
\<close>

definition spec_is_read :: "'row query_result \<Rightarrow> bool" where
  "spec_is_read r =
     ((case command r of Defined tag \<Rightarrow> spec_equals_SELECT_ignoring_case tag | _ \<Rightarrow> False)
      \<or> (case rows r of Defined rs \<Rightarrow> True | _ \<Rightarrow> False))"

subsection \<open>Auxiliary notions for stating the claims\<close>

text \<open>Scalar parameter values, for the concrete scenarios.\<close>

datatype scalar = Num int | Str string

text \<open>
  The invocation that reaches the pool: the default of line 19 followed by the
  translation of line 20.
\<close>

definition submitted :: "string \<Rightarrow> 'v list nullable \<Rightarrow> 'v translated" where
  "submitted sql params =
     convertQuestionMarksToDollars sql
       (case params of Undefined \<Rightarrow> Defined [] | _ \<Rightarrow> params)"

text \<open>
  A pool that rejects every call with the very text and values it was handed, and
  counts its calls: a probe for what \<^verbatim>\<open>execute\<close> submits.
\<close>

definition probe :: "(nat, 'v, string \<times> 'v list, 'row) pool" where
  "probe calls txt vals = (Inl (txt, vals), Suc calls)"

section \<open>Auxiliary facts\<close>

subsection \<open>The scan\<close>

lemma replace_append:
  "replaceQuestionMarks k (xs @ ys) =
     replaceQuestionMarks k xs @ replaceQuestionMarks (k + count_list xs CHR ''?'') ys"
  by (induction xs arbitrary: k) auto

lemma replace_no_marker: "CHR ''?'' \<notin> set s \<Longrightarrow> replaceQuestionMarks k s = s"
  by (induction s) auto

lemma count_no_marker: "CHR ''?'' \<notin> set s \<Longrightarrow> count_list s CHR ''?'' = 0"
  by (induction s) auto

lemma replace_join:
  "\<forall>s\<in>set segs. CHR ''?'' \<notin> set s \<Longrightarrow>
   replaceQuestionMarks k (spec_join_markers segs) = spec_join_tokens (Suc k) segs"
  by (induction segs arbitrary: k rule: spec_join_markers.induct)
     (auto simp: replace_append replace_no_marker count_no_marker)

lemma count_join:
  "\<forall>s\<in>set segs. CHR ''?'' \<notin> set s \<Longrightarrow>
   count_list (spec_join_markers segs) CHR ''?'' = length segs - 1"
  by (induction segs rule: spec_join_markers.induct)
     (auto simp: count_no_marker)

lemma split_not_empty: "spec_split_markers s \<noteq> []"
  by (induction s) auto

lemma join_Cons: "ss \<noteq> [] \<Longrightarrow> spec_join_markers (s # ss) = s @ ''?'' @ spec_join_markers ss"
  by (cases ss) auto

lemma join_Cons_hd:
  "ss \<noteq> [] \<Longrightarrow> spec_join_markers ((c # hd ss) # tl ss) = c # spec_join_markers ss"
  by (cases ss rule: spec_join_markers.cases) auto

lemma join_split: "spec_join_markers (spec_split_markers s) = s"
  by (induction s) (auto simp: split_not_empty join_Cons join_Cons_hd)

lemma split_marker_free: "\<forall>seg\<in>set (spec_split_markers s). CHR ''?'' \<notin> set seg"
proof (induction s)
  case Nil
  show ?case by simp
next
  case (Cons c cs)
  obtain seg segs where eq: "spec_split_markers cs = seg # segs"
    using split_not_empty [of cs] by (cases "spec_split_markers cs") auto
  with Cons show ?case by auto
qed

lemma length_split: "length (spec_split_markers s) = Suc (count_list s CHR ''?'')"
proof (induction s)
  case Nil
  show ?case by simp
next
  case (Cons c cs)
  obtain seg segs where eq: "spec_split_markers cs = seg # segs"
    using split_not_empty [of cs] by (cases "spec_split_markers cs") auto
  with Cons show ?case by auto
qed

subsection \<open>Upper-casing and the tag \<^verbatim>\<open>SELECT\<close>\<close>

lemma of_char_toUpperCaseChar:
  "(of_char (toUpperCaseChar c) :: nat) =
     (if 97 \<le> (of_char c :: nat) \<and> (of_char c :: nat) \<le> 122
      then of_char c - 32 else of_char c)"
proof -
  have "(of_char c :: nat) < 256" by simp
  then have "(of_char c :: nat) - 32 < 256" by (rule less_imp_diff_less)
  then have "((of_char c :: nat) - 32) mod 256 = of_char c - 32" by (rule mod_less)
  then show ?thesis by (simp add: toUpperCaseChar_def Let_def)
qed

lemma toUpperCaseChar_eq_iff:
  assumes "65 \<le> (of_char u :: nat)" "(of_char u :: nat) \<le> 90"
    and "(of_char l :: nat) = of_char u + 32"
  shows "toUpperCaseChar c = u \<longleftrightarrow> c = u \<or> c = l"
proof -
  have "toUpperCaseChar c = u \<longleftrightarrow> (of_char (toUpperCaseChar c) :: nat) = of_char u"
    by (simp only: of_char_eq_iff)
  also have "\<dots> \<longleftrightarrow> (of_char c :: nat) = of_char u \<or> (of_char c :: nat) = of_char l"
    using assms by (auto simp: of_char_toUpperCaseChar)
  also have "\<dots> \<longleftrightarrow> c = u \<or> c = l"
    by (simp only: of_char_eq_iff)
  finally show ?thesis .
qed

lemma toUpper_S: "toUpperCaseChar c = CHR ''S'' \<longleftrightarrow> c = CHR ''S'' \<or> c = CHR ''s''"
  by (rule toUpperCaseChar_eq_iff) simp_all

lemma toUpper_E: "toUpperCaseChar c = CHR ''E'' \<longleftrightarrow> c = CHR ''E'' \<or> c = CHR ''e''"
  by (rule toUpperCaseChar_eq_iff) simp_all

lemma toUpper_L: "toUpperCaseChar c = CHR ''L'' \<longleftrightarrow> c = CHR ''L'' \<or> c = CHR ''l''"
  by (rule toUpperCaseChar_eq_iff) simp_all

lemma toUpper_C: "toUpperCaseChar c = CHR ''C'' \<longleftrightarrow> c = CHR ''C'' \<or> c = CHR ''c''"
  by (rule toUpperCaseChar_eq_iff) simp_all

lemma toUpper_T: "toUpperCaseChar c = CHR ''T'' \<longleftrightarrow> c = CHR ''T'' \<or> c = CHR ''t''"
  by (rule toUpperCaseChar_eq_iff) simp_all

lemma toUpperCase_SELECT_iff:
  "toUpperCase tag = ''SELECT'' \<longleftrightarrow> spec_equals_SELECT_ignoring_case tag"
  unfolding toUpperCase_def spec_equals_SELECT_ignoring_case_def
  by (simp add: map_eq_Cons_conv list_all2_Cons2
      toUpper_S toUpper_E toUpper_L toUpper_C toUpper_T)

lemma empty_not_SELECT: "\<not> spec_equals_SELECT_ignoring_case ''''"
  by (simp add: spec_equals_SELECT_ignoring_case_def)

lemma orEmptyString_iff:
  "toUpperCase (orEmptyString c) = ''SELECT'' \<longleftrightarrow>
     (case c of Defined tag \<Rightarrow> spec_equals_SELECT_ignoring_case tag | _ \<Rightarrow> False)"
  by (cases c) (simp_all add: toUpperCase_SELECT_iff empty_not_SELECT)

lemma isArray_iff: "isArray v \<longleftrightarrow> (case v of Defined rs \<Rightarrow> True | _ \<Rightarrow> False)"
  by (cases v) auto

lemma read_condition:
  "(toUpperCase (orEmptyString (command r)) = ''SELECT'' \<or> isArray (rows r))
     \<longleftrightarrow> spec_is_read r"
  by (simp add: spec_is_read_def orEmptyString_iff isArray_iff)

subsection \<open>Decimal tokens\<close>

lemma digitChar_code: "d < 10 \<Longrightarrow> (of_char (digitChar d) :: nat) = 48 + d"
  by (simp add: digitChar_def)

lemma digitChar_not_marker: "d < 10 \<Longrightarrow> digitChar d \<noteq> CHR ''?''"
proof
  assume d: "d < 10" and eq: "digitChar d = CHR ''?''"
  have "(of_char (digitChar d) :: nat) = 48 + d" using d by (rule digitChar_code)
  with eq d show False by simp
qed

lemma numberToString_no_marker: "CHR ''?'' \<notin> set (numberToString n)"
proof (induction n rule: numberToString.induct)
  case (1 n)
  show ?case
  proof (cases "n < 10")
    case True
    then show ?thesis
      using digitChar_not_marker [of n] by (subst numberToString.simps) auto
  next
    case False
    have "n mod 10 < 10" by simp
    then have "digitChar (n mod 10) \<noteq> CHR ''?''" by (rule digitChar_not_marker)
    with False 1 show ?thesis
      by (subst numberToString.simps) auto
  qed
qed

lemma replace_no_marker_left: "CHR ''?'' \<notin> set (replaceQuestionMarks k s)"
  by (induction s arbitrary: k) (auto simp: numberToString_no_marker)

lemma digitChar_digit: "d < 10 \<Longrightarrow> digitChar d \<in> set ''0123456789''"
proof -
  assume "d < 10"
  then have "d \<in> {0, 1, 2, 3, 4, 5, 6, 7, 8, 9}" by auto
  moreover have "digitChar 0 = CHR ''0''" "digitChar 1 = CHR ''1''" "digitChar 2 = CHR ''2''"
    "digitChar 3 = CHR ''3''" "digitChar 4 = CHR ''4''" "digitChar 5 = CHR ''5''"
    "digitChar 6 = CHR ''6''" "digitChar 7 = CHR ''7''" "digitChar 8 = CHR ''8''"
    "digitChar 9 = CHR ''9''"
    by code_simp+
  ultimately show ?thesis by auto
qed

lemma numberToString_digits: "set (numberToString n) \<subseteq> set ''0123456789''"
proof (induction n rule: numberToString.induct)
  case (1 n)
  show ?case
  proof (cases "n < 10")
    case True
    then show ?thesis
      using digitChar_digit [of n] by (subst numberToString.simps) simp
  next
    case False
    have "digitChar (n mod 10) \<in> set ''0123456789''"
      by (rule digitChar_digit) simp
    with False 1 show ?thesis
      by (subst numberToString.simps) simp
  qed
qed

lemma decimal_value_snoc:
  "spec_decimal_value (s @ [c]) = 10 * spec_decimal_value s + (of_char c - 48)"
  by (simp add: spec_decimal_value_def)

lemma numberToString_decimal: "spec_decimal_value (numberToString n) = n"
proof (induction n rule: numberToString.induct)
  case (1 n)
  show ?case
  proof (cases "n < 10")
    case True
    then show ?thesis
      by (subst numberToString.simps) (simp add: spec_decimal_value_def digitChar_code)
  next
    case False
    have "n mod 10 < 10" by simp
    then have "(of_char (digitChar (n mod 10)) :: nat) = 48 + n mod 10" by (rule digitChar_code)
    with False 1 show ?thesis
      by (subst numberToString.simps) (simp add: decimal_value_snoc)
  qed
qed

subsection \<open>One call of \<^verbatim>\<open>execute\<close>\<close>

lemma submitted_simps:
  "submitted sql Undefined = \<lparr>text = sql, values = []\<rparr>"
  "submitted sql Null = \<lparr>text = sql, values = []\<rparr>"
  "submitted sql (Defined []) = \<lparr>text = sql, values = []\<rparr>"
  "vs \<noteq> [] \<Longrightarrow> submitted sql (Defined vs) = \<lparr>text = replaceQuestionMarks 0 sql, values = vs\<rparr>"
  by (simp_all add: submitted_def)

lemma execute_unfold:
  "execute query db sql params =
     (case query db (text (submitted sql params)) (values (submitted sql params)) of
        (Inl err, db') \<Rightarrow> (Inl err, db')
      | (Inr r, db') \<Rightarrow>
          (if spec_is_read r then Inr [Value (rows r), Value Undefined]
           else Inr [Status \<lparr>affectedRows = nullish (rowCount r) 0, insertId = Null\<rparr>], db'))"
  by (simp add: execute_def submitted_def Let_def read_condition split: prod.splits sum.splits)

lemma execute_rejected:
  "query db (text (submitted sql params)) (values (submitted sql params)) = (Inl err, db')
   \<Longrightarrow> execute query db sql params = (Inl err, db')"
  by (simp add: execute_unfold)

lemma execute_resolved:
  "query db (text (submitted sql params)) (values (submitted sql params)) = (Inr r, db')
   \<Longrightarrow> execute query db sql params =
        (if spec_is_read r then Inr [Value (rows r), Value Undefined]
         else Inr [Status \<lparr>affectedRows = nullish (rowCount r) 0, insertId = Null\<rparr>], db')"
  by (simp add: execute_unfold)

lemma execute_probe:
  "execute probe calls sql params =
     (Inl (text (submitted sql params), values (submitted sql params)), Suc calls)"
  by (simp add: execute_unfold probe_def)

section \<open>The claims\<close>

subsection \<open>Placeholder translation\<close>

text \<open>
  Claim C1. A statement with \<open>n\<close> markers is \<open>n + 1\<close> marker-free segments joined by
  \<^verbatim>\<open>?\<close>. Translated with a non-empty list of \<open>n\<close> parameters, its text is the same
  segments joined by \<^verbatim>\<open>$1\<close>, ..., \<^verbatim>\<open>$n\<close> from left to right, so the \<open>k\<close>-th marker
  has become the token \<^verbatim>\<open>$k\<close> (the decimal numeral of \<open>k\<close>, by
  \<open>numberToString_decimal\<close> and \<open>numberToString_digits\<close>), and the returned
  parameters are the given ones in the given order. Every statement text is such a
  join, of the segments \<open>spec_split_markers\<close> cuts it into (\<open>join_split\<close>,
  \<open>split_marker_free\<close>, \<open>length_split\<close>).
\<close>

theorem C1_markers_numbered_in_order:
  assumes "\<forall>s\<in>set segs. CHR ''?'' \<notin> set s"
    and "vs \<noteq> []"
    and "length segs = Suc (length vs)"
  shows "count_list (spec_join_markers segs) CHR ''?'' = length vs
       \<and> convertQuestionMarksToDollars (spec_join_markers segs) (Defined vs)
           = \<lparr>text = spec_join_tokens 1 segs, values = vs\<rparr>"
  using assms by (simp add: count_join replace_join)

text \<open>The scenario of the specification: two markers, two parameters.\<close>

theorem C1_markers_numbered_in_order_witness:
  "list_all (\<lambda>s. CHR ''?'' \<notin> set s)
     [''SELECT * FROM books WHERE quantity > '', '' AND title ILIKE '', '''']
   \<and> count_list ''SELECT * FROM books WHERE quantity > ? AND title ILIKE ?'' CHR ''?'' = 2
   \<and> convertQuestionMarksToDollars
         ''SELECT * FROM books WHERE quantity > ? AND title ILIKE ?''
         (Defined [Num 0, Str ''%foo%''])
       = \<lparr>text = ''SELECT * FROM books WHERE quantity > $1 AND title ILIKE $2'',
          values = [Num 0, Str ''%foo%'']\<rparr>"
proof -
  have tokens: "numberToString (Suc 0) = ''1''" "numberToString (Suc (Suc 0)) = ''2''"
    by code_simp+
  show ?thesis
    using C1_markers_numbered_in_order
      [of "[''SELECT * FROM books WHERE quantity > '', '' AND title ILIKE '', '''']"
          "[Num 0, Str ''%foo%'']"]
    by (simp add: tokens)
qed

text \<open>
  Claim C2. With an empty parameter list, or with none (\<^verbatim>\<open>undefined\<close> or \<^verbatim>\<open>null\<close>),
  the translation returns the statement text as it is, whatever it holds, together
  with an empty parameter list. Through \<^verbatim>\<open>execute\<close> called without parameters the
  pool receives exactly that text and the empty list.
\<close>

theorem C2_no_parameters_no_substitution:
  "convertQuestionMarksToDollars sql (Defined []) = \<lparr>text = sql, values = []\<rparr>
   \<and> convertQuestionMarksToDollars sql Undefined = \<lparr>text = sql, values = []\<rparr>
   \<and> convertQuestionMarksToDollars sql Null = \<lparr>text = sql, values = []\<rparr>
   \<and> execute probe calls sql Undefined = (Inl (sql, []), Suc calls)"
  by (simp add: execute_probe submitted_simps)

theorem C2_no_parameters_no_substitution_witness:
  "convertQuestionMarksToDollars ''SELECT '?' AS mark'' (Defined ([] :: scalar list))
     = \<lparr>text = ''SELECT '?' AS mark'', values = []\<rparr>
   \<and> convertQuestionMarksToDollars ''SELECT '?' AS mark'' (Undefined :: scalar list nullable)
     = \<lparr>text = ''SELECT '?' AS mark'', values = []\<rparr>"
  using C2_no_parameters_no_substitution [of "''SELECT '?' AS mark''"]
  by simp

subsection \<open>Reshaping the result\<close>

text \<open>
  Claim C3. When the driver resolves with a result \<open>r\<close>, \<^verbatim>\<open>execute\<close> answers with the
  two-slot read shape, the \<^verbatim>\<open>rows\<close> field of \<open>r\<close> first and \<^verbatim>\<open>undefined\<close> second,
  exactly when \<open>r\<close> is a read in the sense of the specification: its tag equals
  \<^verbatim>\<open>SELECT\<close> case-insensitively or it carries a row sequence. Every read gets that
  shape, and a read with zero rows gets \<^verbatim>\<open>[[], undefined]\<close>. The first slot is the
  \<^verbatim>\<open>rows\<close> field as the driver gave it; it is the row sequence whenever the result
  carries one.
\<close>

theorem C3_read_classification_and_shape:
  assumes "query db (text (submitted sql params)) (values (submitted sql params)) = (Inr r, db')"
  shows "(fst (execute query db sql params) = Inr [Value (rows r), Value Undefined]
            \<longleftrightarrow> spec_is_read r)
       \<and> (spec_is_read r \<longrightarrow>
            execute query db sql params = (Inr [Value (rows r), Value Undefined], db'))
       \<and> (rows r = Defined rs \<longrightarrow>
            execute query db sql params = (Inr [Value (Defined rs), Value Undefined], db'))
       \<and> (rows r = Defined [] \<longrightarrow>
            execute query db sql params = (Inr [Value (Defined []), Value Undefined], db'))"
  using assms by (simp add: execute_resolved spec_is_read_def)

text \<open>
  A read with zero rows, and the read of the specification with two rows.
\<close>

theorem C3_read_classification_and_shape_witness:
  "execute (\<lambda>db txt vals. (Inr \<lparr>command = Defined ''Select'', rows = Defined [],
                                   rowCount = Defined 0\<rparr>, db))
       () ''SELECT * FROM books WHERE id = ?'' (Defined [Num 7])
     = (Inr [Value (Defined ([] :: (string \<times> scalar) list list)), Value Undefined]
          :: string + (string \<times> scalar) list slot list, ())
   \<and> execute (\<lambda>db txt vals. (Inr \<lparr>command = Defined ''SELECT'',
                                   rows = Defined [[(''id'', Num 1), (''name'', Str ''a'')],
                                                   [(''id'', Num 2), (''name'', Str ''b'')]],
                                   rowCount = Defined 2\<rparr>, db))
       () ''SELECT id, name FROM authors'' (Undefined :: scalar list nullable)
     = (Inr [Value (Defined [[(''id'', Num 1), (''name'', Str ''a'')],
                             [(''id'', Num 2), (''name'', Str ''b'')]]), Value Undefined]
          :: string + (string \<times> scalar) list slot list, ())"
proof -
  let ?r0 = "\<lparr>command = Defined ''Select'',
               rows = Defined ([] :: (string \<times> scalar) list list), rowCount = Defined 0\<rparr>"
  let ?r2 = "\<lparr>command = Defined ''SELECT'',
               rows = Defined [[(''id'', Num 1), (''name'', Str ''a'')],
                               [(''id'', Num 2), (''name'', Str ''b'')]],
               rowCount = Defined 2\<rparr>"
  have reads: "spec_is_read ?r0" "spec_is_read ?r2"
    by (simp_all add: spec_is_read_def)
  show ?thesis
    using reads
      C3_read_classification_and_shape
        [of "(\<lambda>db txt vals. (Inr ?r0, db))
               :: (unit, scalar, string, (string \<times> scalar) list) pool"
            "()" "''SELECT * FROM books WHERE id = ?''" "Defined [Num 7]" ?r0 "()"]
      C3_read_classification_and_shape
        [of "(\<lambda>db txt vals. (Inr ?r2, db))
               :: (unit, scalar, string, (string \<times> scalar) list) pool"
            "()" "''SELECT id, name FROM authors''" Undefined ?r2 "()"]
    by simp
qed

text \<open>
  Claim C4. When the driver resolves with a result that is not a read, \<^verbatim>\<open>execute\<close>
  answers with the status object first: \<^verbatim>\<open>affectedRows\<close> is the reported row count,
  or 0 when the count is missing or \<^verbatim>\<open>null\<close>, and \<^verbatim>\<open>insertId\<close> is \<^verbatim>\<open>null\<close>.
\<close>

theorem C4_mutation_status:
  assumes "query db (text (submitted sql params)) (values (submitted sql params)) = (Inr r, db')"
    and "\<not> spec_is_read r"
  shows "execute query db sql params =
           (Inr [Status \<lparr>affectedRows = (case rowCount r of Defined n \<Rightarrow> n | _ \<Rightarrow> 0),
                          insertId = Null\<rparr>], db')"
  using assms by (cases "rowCount r") (simp_all add: execute_resolved)

text \<open>A count of 3 is reported as 3; a missing count becomes 0.\<close>

theorem C4_mutation_status_witness:
  "execute (\<lambda>db txt vals. (Inr \<lparr>command = Defined ''UPDATE'', rows = Undefined,
                                   rowCount = Defined 3\<rparr>, db))
       () ''UPDATE books SET quantity = ? WHERE id = ?'' (Defined [Num 5, Num 10])
     = (Inr [Status \<lparr>affectedRows = 3, insertId = Null\<rparr>]
          :: string + (string \<times> scalar) list slot list, ())
   \<and> execute (\<lambda>db txt vals. (Inr \<lparr>command = Defined ''UPDATE'', rows = Undefined,
                                   rowCount = Undefined\<rparr>, db))
       () ''UPDATE books SET quantity = ? WHERE id = ?'' (Defined [Num 5, Num 10])
     = (Inr [Status \<lparr>affectedRows = 0, insertId = Null\<rparr>]
          :: string + (string \<times> scalar) list slot list, ())"
proof -
  let ?r3 = "\<lparr>command = Defined ''UPDATE'',
               rows = (Undefined :: (string \<times> scalar) list list nullable),
               rowCount = Defined 3\<rparr>"
  let ?r0 = "\<lparr>command = Defined ''UPDATE'',
               rows = (Undefined :: (string \<times> scalar) list list nullable),
               rowCount = Undefined\<rparr>"
  have mutations: "\<not> spec_is_read ?r3" "\<not> spec_is_read ?r0"
    by (simp_all add: spec_is_read_def spec_equals_SELECT_ignoring_case_def)
  show ?thesis
    using mutations
      C4_mutation_status
        [of "(\<lambda>db txt vals. (Inr ?r3, db))
               :: (unit, scalar, string, (string \<times> scalar) list) pool"
            "()" "''UPDATE books SET quantity = ? WHERE id = ?''"
            "Defined [Num 5, Num 10]" ?r3 "()"]
      C4_mutation_status
        [of "(\<lambda>db txt vals. (Inr ?r0, db))
               :: (unit, scalar, string, (string \<times> scalar) list) pool"
            "()" "''UPDATE books SET quantity = ? WHERE id = ?''"
            "Defined [Num 5, Num 10]" ?r0 "()"]
    by simp
qed

subsection \<open>Values never reach the text\<close>

text \<open>
  Claim C5. The translated text does not depend on the parameter values: any two
  non-empty parameter lists, of equal length or not, give the same text for the same
  statement. The values are returned as they are, and the pool is handed that text
  and exactly those values.
\<close>

theorem C5_text_independent_of_values:
  assumes "vs \<noteq> []" and "ws \<noteq> []"
  shows "text (convertQuestionMarksToDollars sql (Defined vs))
           = text (convertQuestionMarksToDollars sql (Defined ws))
       \<and> values (convertQuestionMarksToDollars sql (Defined vs)) = vs
       \<and> execute probe calls sql (Defined vs)
           = (Inl (text (convertQuestionMarksToDollars sql (Defined ws)), vs), Suc calls)"
  using assms by (simp add: execute_probe submitted_simps)

text \<open>A value written to break out of a quoted literal leaves the text untouched.\<close>

theorem C5_text_independent_of_values_witness:
  "text (convertQuestionMarksToDollars ''SELECT * FROM students WHERE name = ?''
           (Defined [Str ''x' OR 1=1 --'']))
     = text (convertQuestionMarksToDollars ''SELECT * FROM students WHERE name = ?''
           (Defined [Str ''Ann'']))
   \<and> text (convertQuestionMarksToDollars ''SELECT * FROM students WHERE name = ?''
           (Defined [Str ''x' OR 1=1 --'']))
     = ''SELECT * FROM students WHERE name = $1''
   \<and> execute (probe :: (nat, scalar, string \<times> scalar list, unit) pool) 0
         ''SELECT * FROM students WHERE name = ?'' (Defined [Str ''x' OR 1=1 --''])
     = (Inl (''SELECT * FROM students WHERE name = $1'', [Str ''x' OR 1=1 --'']), 1)"
proof -
  have token: "numberToString (Suc 0) = ''1''"
    by code_simp
  have plain: "text (convertQuestionMarksToDollars ''SELECT * FROM students WHERE name = ?''
                 (Defined [Str ''Ann''])) = ''SELECT * FROM students WHERE name = $1''"
    by (simp add: token)
  show ?thesis
    using C5_text_independent_of_values
      [of "[Str ''x' OR 1=1 --'']" "[Str ''Ann'']"
          "''SELECT * FROM students WHERE name = ?''" 0]
    by (simp add: plain token)
qed

subsection \<open>Failures of the driver\<close>

text \<open>
  Claim C6. \<^verbatim>\<open>execute\<close> rejects with an error exactly when the one driver call
  rejects with it, and the error is the driver's own. The pool is left in the state
  that single call produced: the statement is not submitted again, and no other value
  stands in for the failure. The arguments are typed as the callers pass them (a
  string, an array or nothing); the module has no other effect than the call.
\<close>

theorem C6_driver_error_unmodified:
  "(fst (execute query db sql params) = Inl err
      \<longleftrightarrow> fst (query db (text (submitted sql params)) (values (submitted sql params))) = Inl err)
   \<and> snd (execute query db sql params)
       = snd (query db (text (submitted sql params)) (values (submitted sql params)))"
  by (simp add: execute_unfold split: prod.splits sum.splits)

text \<open>A constraint violation comes back as it is, after one call.\<close>

theorem C6_driver_error_unmodified_witness:
  "execute (\<lambda>calls txt vals. (Inl ''duplicate key value violates unique constraint'',
                                Suc calls))
       (0 :: nat) ''INSERT INTO authors (name) VALUES (?)'' (Defined [Str ''Ann''])
     = (Inl ''duplicate key value violates unique constraint''
          :: string + unit slot list, 1)"
  using C6_driver_error_unmodified
    [of "(\<lambda>calls txt vals. (Inl ''duplicate key value violates unique constraint'',
                                Suc calls)) :: (nat, scalar, string, unit) pool"
        0 "''INSERT INTO authors (name) VALUES (?)''" "Defined [Str ''Ann'']"
        "''duplicate key value violates unique constraint''"]
  by (simp add: prod_eq_iff)

subsection \<open>What the translation does not check\<close>

text \<open>
  Claim C7. When the number of markers differs from the number of parameters (and
  there is at least one parameter), the translation still numbers every marker from
  \<^verbatim>\<open>$1\<close> on and returns the parameters as they are; being a total function, it
  raises nothing. \<^verbatim>\<open>execute\<close> submits the mismatched pair to the pool.
\<close>

theorem C7_count_mismatch_unchecked:
  assumes "\<forall>s\<in>set segs. CHR ''?'' \<notin> set s"
    and "vs \<noteq> []"
    and "length segs - 1 \<noteq> length vs"
  shows "count_list (spec_join_markers segs) CHR ''?'' \<noteq> length vs
       \<and> convertQuestionMarksToDollars (spec_join_markers segs) (Defined vs)
           = \<lparr>text = spec_join_tokens 1 segs, values = vs\<rparr>
       \<and> execute probe calls (spec_join_markers segs) (Defined vs)
           = (Inl (spec_join_tokens 1 segs, vs), Suc calls)"
  using assms by (simp add: count_join replace_join execute_probe submitted_simps)

text \<open>Two markers with one parameter, and no marker with one parameter.\<close>

theorem C7_count_mismatch_unchecked_witness:
  "count_list ''UPDATE books SET quantity = ? WHERE id = ?'' CHR ''?'' = 2
   \<and> length [Num 5] = 1
   \<and> convertQuestionMarksToDollars ''UPDATE books SET quantity = ? WHERE id = ?''
         (Defined [Num 5])
       = \<lparr>text = ''UPDATE books SET quantity = $1 WHERE id = $2'', values = [Num 5]\<rparr>
   \<and> convertQuestionMarksToDollars ''SELECT * FROM books'' (Defined [Num 5])
       = \<lparr>text = ''SELECT * FROM books'', values = [Num 5]\<rparr>"
proof -
  have tokens: "numberToString (Suc 0) = ''1''" "numberToString (Suc (Suc 0)) = ''2''"
    by code_simp+
  show ?thesis
    using C7_count_mismatch_unchecked
      [of "[''UPDATE books SET quantity = '', '' WHERE id = '', '''']" "[Num 5]"]
      C7_count_mismatch_unchecked [of "[''SELECT * FROM books'']" "[Num 5]"]
    by (simp add: tokens)
qed

text \<open>
  Claim C8. With a non-empty parameter list no \<^verbatim>\<open>?\<close> survives in the translated
  text, and a \<^verbatim>\<open>?\<close> at any place is replaced by the token numbered one more than the
  markers before it, whatever the characters around it are: quotes and comment signs
  in the text before it play no part.
\<close>

theorem C8_every_marker_replaced_blindly:
  assumes "vs \<noteq> []"
  shows "CHR ''?'' \<notin> set (text (convertQuestionMarksToDollars sql (Defined vs)))
       \<and> text (convertQuestionMarksToDollars (before @ ''?'' @ rest) (Defined vs))
           = text (convertQuestionMarksToDollars before (Defined vs))
             @ ''$'' @ numberToString (Suc (count_list before CHR ''?''))
             @ replaceQuestionMarks (Suc (count_list before CHR ''?'')) rest"
  using assms by (simp add: replace_no_marker_left replace_append)

text \<open>Markers inside a quoted literal and inside comments are numbered like the others.\<close>

theorem C8_every_marker_replaced_blindly_witness:
  "convertQuestionMarksToDollars
       ''SELECT 'why?' AS q /* sure? */ FROM books WHERE id = ? -- ok?'' (Defined [Num 7])
     = \<lparr>text = ''SELECT 'why$1' AS q /* sure$2 */ FROM books WHERE id = $3 -- ok$4'',
        values = [Num 7]\<rparr>"
proof -
  have tokens: "numberToString (Suc 0) = ''1''" "numberToString (Suc (Suc 0)) = ''2''"
      "numberToString (Suc (Suc (Suc 0))) = ''3''"
      "numberToString (Suc (Suc (Suc (Suc 0)))) = ''4''"
    by code_simp+
  have "count_list ''SELECT 'why'' CHR ''?'' = 0"
    by simp
  then show ?thesis
    using C8_every_marker_replaced_blindly
      [of "[Num 7]" "''''" "''SELECT 'why''"
          "'' AS q /* sure? */ FROM books WHERE id = ? -- ok?''"]
    by (simp add: tokens)
qed

subsection \<open>Corners of the classification\<close>

text \<open>
  Claim C9. A result that carries an array of rows gets the read shape whatever its
  tag is, mutation tags included; the status object is returned only when the
  \<^verbatim>\<open>rows\<close> field is not an array.
\<close>

theorem C9_rows_take_precedence_over_tag:
  assumes "query db (text (submitted sql params)) (values (submitted sql params)) = (Inr r, db')"
  shows "(rows r = Defined rs \<longrightarrow>
            execute query db sql params = (Inr [Value (Defined rs), Value Undefined], db'))
       \<and> (fst (execute query db sql params) = Inr [Status packet] \<longrightarrow>
            rows r = Undefined \<or> rows r = Null)"
  using assms
  by (cases "rows r") (auto simp: execute_resolved spec_is_read_def split: if_splits)

text \<open>An \<^verbatim>\<open>INSERT\<close> with a returning clause and a \<^verbatim>\<open>DELETE\<close> with an empty array.\<close>

theorem C9_rows_take_precedence_over_tag_witness:
  "execute (\<lambda>db txt vals. (Inr \<lparr>command = Defined ''INSERT'',
                                   rows = Defined [[(''id'', Num 42)]],
                                   rowCount = Defined 1\<rparr>, db))
       () ''INSERT INTO authors (name) VALUES (?) RETURNING id'' (Defined [Str ''Ann''])
     = (Inr [Value (Defined [[(''id'', Num 42)]]), Value Undefined]
          :: string + (string \<times> scalar) list slot list, ())
   \<and> execute (\<lambda>db txt vals. (Inr \<lparr>command = Defined ''DELETE'', rows = Defined [],
                                   rowCount = Defined 2\<rparr>, db))
       () ''DELETE FROM borrows WHERE student_id = ?'' (Defined [Num 3])
     = (Inr [Value (Defined []), Value Undefined]
          :: string + (string \<times> scalar) list slot list, ())"
proof -
  let ?r1 = "\<lparr>command = Defined ''INSERT'', rows = Defined [[(''id'', Num 42)]],
               rowCount = Defined 1\<rparr>"
  let ?r2 = "\<lparr>command = Defined ''DELETE'',
               rows = Defined ([] :: (string \<times> scalar) list list), rowCount = Defined 2\<rparr>"
  show ?thesis
    using
      C9_rows_take_precedence_over_tag
        [of "(\<lambda>db txt vals. (Inr ?r1, db))
               :: (unit, scalar, string, (string \<times> scalar) list) pool"
            "()" "''INSERT INTO authors (name) VALUES (?) RETURNING id''"
            "Defined [Str ''Ann'']" ?r1 "()" "[[(''id'', Num 42)]]"]
      C9_rows_take_precedence_over_tag
        [of "(\<lambda>db txt vals. (Inr ?r2, db))
               :: (unit, scalar, string, (string \<times> scalar) list) pool"
            "()" "''DELETE FROM borrows WHERE student_id = ?''"
            "Defined [Num 3]" ?r2 "()" "[]"]
    by simp
qed

text \<open>
  Claim C10. When the \<^verbatim>\<open>command\<close> field of the result is missing or \<^verbatim>\<open>null\<close>, the
  tag is taken to be the empty string, \<^verbatim>\<open>execute\<close> resolves (nothing is raised),
  and the shape of the answer is decided by the \<^verbatim>\<open>rows\<close> field alone.
\<close>

theorem C10_missing_tag_is_empty_string:
  assumes "query db (text (submitted sql params)) (values (submitted sql params)) = (Inr r, db')"
    and "command r = Undefined \<or> command r = Null"
  shows "toUpperCase (orEmptyString (command r)) = ''''
       \<and> execute query db sql params =
           (case rows r of
              Defined rs \<Rightarrow> Inr [Value (Defined rs), Value Undefined]
            | _ \<Rightarrow> Inr [Status \<lparr>affectedRows = nullish (rowCount r) 0, insertId = Null\<rparr>],
            db')"
  using assms
  by (cases "rows r") (auto simp: execute_resolved spec_is_read_def toUpperCase_def)

theorem C10_missing_tag_is_empty_string_witness:
  "execute (\<lambda>db txt vals. (Inr \<lparr>command = Null, rows = Defined [[(''n'', Num 1)]],
                                   rowCount = Null\<rparr>, db))
       () ''SELECT 1 AS n'' (Undefined :: scalar list nullable)
     = (Inr [Value (Defined [[(''n'', Num 1)]]), Value Undefined]
          :: string + (string \<times> scalar) list slot list, ())
   \<and> execute (\<lambda>db txt vals. (Inr \<lparr>command = Undefined, rows = Undefined,
                                   rowCount = Defined 4\<rparr>, db))
       () ''VACUUM'' (Undefined :: scalar list nullable)
     = (Inr [Status \<lparr>affectedRows = 4, insertId = Null\<rparr>]
          :: string + (string \<times> scalar) list slot list, ())"
proof -
  let ?r1 = "\<lparr>command = Null, rows = Defined [[(''n'', Num 1)]], rowCount = Null\<rparr>"
  let ?r2 = "\<lparr>command = Undefined, rows = (Undefined :: (string \<times> scalar) list list nullable),
               rowCount = Defined 4\<rparr>"
  show ?thesis
    using
      C10_missing_tag_is_empty_string
        [of "(\<lambda>db txt vals. (Inr ?r1, db))
               :: (unit, scalar, string, (string \<times> scalar) list) pool"
            "()" "''SELECT 1 AS n''" Undefined ?r1 "()"]
      C10_missing_tag_is_empty_string
        [of "(\<lambda>db txt vals. (Inr ?r2, db))
               :: (unit, scalar, string, (string \<times> scalar) list) pool"
            "()" "''VACUUM''" Undefined ?r2 "()"]
    by simp
qed

end
